theory Spec2Isabelle
  imports
    Complex_Main
    "HOL-Library.Char_ord"
    "HOL-Library.List_Lexorder"
    "HOL-Library.Product_Lexorder"
begin

section \<open>Python strings\<close>

text \<open>
  Source strings are modelled as \<^typ>\<open>string\<close> holding ASCII text. The order on strings
  is the lexicographic order on character codes, which is how Python compares \<open>str\<close>.
  \<open>is_space\<close> is \<open>str.isspace\<close> on ASCII (codes 9-13 and 28-32); it is also what the
  regular-expression class \<open>\s\<close> matches on a \<open>str\<close> pattern.
\<close>

definition is_space :: "char \<Rightarrow> bool" where
  "is_space c = (c \<in> set [CHR 0x09, CHR 0x0A, CHR 0x0B, CHR 0x0C, CHR 0x0D,
                            CHR 0x1C, CHR 0x1D, CHR 0x1E, CHR 0x1F, CHR '' ''])"

definition lower_char :: "char \<Rightarrow> char" where
  "lower_char c =
     (case map_of (zip ''ABCDEFGHIJKLMNOPQRSTUVWXYZ'' ''abcdefghijklmnopqrstuvwxyz'') c of
        Some l \<Rightarrow> l
      | None \<Rightarrow> c)"

definition lower :: "string \<Rightarrow> string" where
  "lower s = map lower_char s"

definition strip :: "string \<Rightarrow> string" where
  "strip s = rev (dropWhile is_space (rev (dropWhile is_space s)))"

definition replace_char :: "char \<Rightarrow> char \<Rightarrow> string \<Rightarrow> string" where
  "replace_char a b s = map (\<lambda>c. if c = a then b else c) s"

text \<open>\<open>starts_with s p\<close> is \<open>s.startswith(p)\<close>, \<open>ends_with s p\<close> is \<open>s.endswith(p)\<close>.\<close>

definition starts_with :: "string \<Rightarrow> string \<Rightarrow> bool" where
  "starts_with s p = (take (length p) s = p)"



text \<open>\<open>join sep xs\<close> is \<open>sep.join(xs)\<close>.\<close>

fun join :: "string \<Rightarrow> string list \<Rightarrow> string" where
  "join sep [] = []"
| "join sep [x] = x"
| "join sep (x # y # ys) = x @ sep @ join sep (y # ys)"

text \<open>\<open>x or d\<close> on an optional string: \<open>None\<close> and the empty string are falsy.\<close>

fun str_or :: "string option \<Rightarrow> string \<Rightarrow> string" where
  "str_or None d = d"
| "str_or (Some s) d = (if s = [] then d else s)"

section \<open>JSON values\<close>

datatype json =
    JNull
  | JBool bool
  | JInt int
  | JStr string
  | JArr "json list"
  | JObj "(string \<times> json) list"

text \<open>Python truthiness of a decoded JSON value (\<open>bool(v)\<close>).\<close>

fun truthy :: "json \<Rightarrow> bool" where
  "truthy JNull = False"
| "truthy (JBool b) = b"
| "truthy (JInt n) = (n \<noteq> 0)"
| "truthy (JStr s) = (s \<noteq> [])"
| "truthy (JArr xs) = (xs \<noteq> [])"
| "truthy (JObj kvs) = (kvs \<noteq> [])"

text \<open>\<open>bool(d.get(k))\<close>: a missing key reads as \<open>None\<close>, which is falsy.\<close>

fun truthy_opt :: "json option \<Rightarrow> bool" where
  "truthy_opt None = False"
| "truthy_opt (Some v) = truthy v"

fun is_dict :: "json \<Rightarrow> bool" where
  "is_dict (JObj kvs) = True"
| "is_dict v = False"

section \<open>Source records\<close>

text \<open>
  A source record is the dictionary the record store serialises for one data source. The
  fields read by the code are kept; a field that may be missing is an \<open>option\<close>.
  \<open>query_domains\<close> is either a single string or a list of strings, the two shapes
  \<open>_is_public_source_record\<close> distinguishes.
\<close>

datatype domains = DomStr string | DomList "string list"

record security_policy =
  is_public :: "json option"
  query_domains :: "domains option"
  admin_only_sparql_terms :: "string list option"
  admin_only_table_patterns :: "string list option"

record connection_config =
  endpoint :: "string option"
  endpoint_url :: "string option"
  api_url :: "string option"

record ui_config =
  ui_description :: "string option"
  ui_display_name :: "string option"
  ui_icon :: "string option"
  ui_color :: "string option"

record source =
  src_id :: "int option"
  src_name :: "string option"
  src_type :: "string option"
  src_source_type :: "string option"
  src_description :: "string option"
  src_security_policy :: "security_policy option"
  src_connection_config :: "connection_config option"
  src_ui_config :: "ui_config option"
  allow_write_back :: "json option"
  can_admin :: "json option"
  can_manage :: "json option"

definition empty_policy :: security_policy where
  "empty_policy = \<lparr>is_public = None, query_domains = None,
     admin_only_sparql_terms = None, admin_only_table_patterns = None\<rparr>"

text \<open>\<open>source.get('security_policy') or {}\<close>\<close>

definition policy_of :: "source \<Rightarrow> security_policy" where
  "policy_of s = (case src_security_policy s of None \<Rightarrow> empty_policy | Some p \<Rightarrow> p)"

definition normalize_source_name :: "string \<Rightarrow> string" where
  "normalize_source_name name = replace_char CHR '' '' CHR ''_'' (lower (strip name))"

text \<open>\<open>_normalize_source_name(source.get('name', ''))\<close>\<close>

definition source_key :: "source \<Rightarrow> string" where
  "source_key s = normalize_source_name (str_or (src_name s) [])"

text \<open>\<open>(source.get('type') or source.get('source_type') or '').strip().lower()\<close>\<close>

definition normalized_type :: "source \<Rightarrow> string" where
  "normalized_type s = lower (strip (str_or (src_type s) (str_or (src_source_type s) [])))"

text \<open>
  The set \<open>{str(d).strip().lower() for d in query_domains if str(d).strip()}\<close>, kept as
  a list; only membership is asked of it.
\<close>

definition normalized_domains :: "security_policy \<Rightarrow> string list" where
  "normalized_domains p =
     (let ds = (case query_domains p of
                  None \<Rightarrow> []
                | Some (DomStr d) \<Rightarrow> (if d = [] then [] else [d])
                | Some (DomList l) \<Rightarrow> l)
      in map (\<lambda>d. lower (strip d)) (filter (\<lambda>d. strip d \<noteq> []) ds))"

definition is_public_source_record :: "source \<Rightarrow> bool" where
  "is_public_source_record s =
     (let source_type = normalized_type s;
          policy = policy_of s
      in if truthy_opt (is_public policy) then True
         else if ''*'' \<in> set (normalized_domains policy)
                 \<or> ''public'' \<in> set (normalized_domains policy) then True
         else if source_type = ''ols'' then is_public policy \<noteq> Some (JBool False)
         else source_key s = ''wikidata'')"

section \<open>Query classification\<close>

text \<open>
  \<open>is_word_char\<close> is the regular-expression class \<open>\w\<close> on ASCII. \<open>match_keyword kw s\<close>
  is a match of \<open>kw\b\<close> at the start of \<open>s\<close> under \<open>re.IGNORECASE\<close>, for a lower-case
  keyword \<open>kw\<close> that ends in a word character: the keyword, then the end of the text or
  a character that is not a word character.
\<close>

definition is_word_char :: "char \<Rightarrow> bool" where
  "is_word_char c =
     (c \<in> set ''abcdefghijklmnopqrstuvwxyzABCDEFGHIJKLMNOPQRSTUVWXYZ0123456789_'')"






section \<open>Exceptions and the outbound HTTP client\<close>

text \<open>
  \<open>HTTPException\<close> carries its status code and detail; any other exception carries the
  text \<open>str(e)\<close> that handlers put into their messages.
\<close>

datatype exn = HTTPException nat string | OtherException string












section \<open>Identity and the record store\<close>

record user_payload =
  user_id :: "int option"
  username :: "string option"

text \<open>
  The two collaborators behind the HTTP calls of the gateway. \<open>validate_token t\<close> is
  \<open>Inl\<close> when the call raises, \<open>Inr None\<close> when the answer is not 200 and
  \<open>Inr (Some u)\<close> when it is 200 with payload \<open>u\<close>. \<open>list_sources h\<close> is the list
  \<open>_fetch_accessible_sources_for_user\<close> returns when the header \<open>X-User-ID\<close> is \<open>h\<close>
  (an answer that is not 200 is the empty list), or \<open>Inl\<close> when the call raises.
\<close>

record backend =
  validate_token :: "string \<Rightarrow> exn + user_payload option"
  list_sources :: "int option \<Rightarrow> exn + source list"

text \<open>\<open>authorization.split(" ", 1)\<close>\<close>

definition split_once :: "string \<Rightarrow> string list" where
  "split_once s =
     (case dropWhile (\<lambda>c. c \<noteq> CHR '' '') s of
        [] \<Rightarrow> [s]
      | c # rest \<Rightarrow> [takeWhile (\<lambda>c. c \<noteq> CHR '' '') s, rest])"

definition extract_bearer_token :: "string option \<Rightarrow> string option" where
  "extract_bearer_token authorization =
     (case authorization of
        None \<Rightarrow> None
      | Some a \<Rightarrow>
          (if a = [] then None
           else (case split_once a of
                   [scheme, credentials] \<Rightarrow>
                     (if lower scheme = ''bearer'' \<and> strip credentials \<noteq> []
                      then Some (strip credentials) else None)
                 | parts \<Rightarrow> None)))"

definition validate_user_token :: "backend \<Rightarrow> string \<Rightarrow> exn + user_payload" where
  "validate_user_token be token =
     (case validate_token be token of
        Inl e \<Rightarrow> Inl e
      | Inr None \<Rightarrow> Inl (HTTPException 401 ''Invalid token'')
      | Inr (Some payload) \<Rightarrow> Inr payload)"

text \<open>The header \<open>X-User-ID\<close> is sent only for a truthy \<open>user_id\<close>.\<close>

definition fetch_accessible_sources_for_user ::
  "backend \<Rightarrow> int option \<Rightarrow> exn + source list" where
  "fetch_accessible_sources_for_user be uid =
     list_sources be (case uid of None \<Rightarrow> None | Some n \<Rightarrow> if n = 0 then None else Some n)"

definition resolve_request_user :: "backend \<Rightarrow> string option \<Rightarrow> exn + user_payload option" where
  "resolve_request_user be authorization =
     (case extract_bearer_token authorization of
        None \<Rightarrow> Inr None
      | Some token \<Rightarrow>
          (case validate_user_token be token of
             Inl e \<Rightarrow> Inl e
           | Inr payload \<Rightarrow> Inr (Some payload)))"

section \<open>Adapters and their registry\<close>

text \<open>
  Modelled from the spec: the result type \<open>QuickSearchResult\<close> is declared in the
  \<open>adapters\<close> package, which is missing. The spec gives a result a label, an id, a
  description, an author tag and a confidence; \<open>search\<close> also reads \<open>relevance_score\<close>.
  The two scores are optional numbers.
\<close>

record quick_search_result =
  qs_label :: string
  qs_id :: string
  qs_description :: "string option"
  qs_author :: "string option"
  confidence :: "real option"
  relevance_score :: "real option"

text \<open>
  Modelled from the spec: \<open>MapNodeResult\<close> and \<open>Relationship\<close> are declared in the missing
  \<open>adapters\<close> package. A node has the id and label, a relationship the relation type and
  target node, that \<open>get_map_nodes\<close> reads.
\<close>

record map_node =
  node_id :: string
  node_label :: string

record relationship =
  relation_type :: string
  target_node :: map_node

text \<open>
  Modelled from the spec: the adapter classes (\<open>DataSourceAdapter\<close> and its subclasses)
  are in the missing \<open>adapters\<close> package. An adapter is the record of the operations the
  handlers call on it: free-text search, node details and relationships, each of which
  may raise, and the two configuration getters. \<open>get_source_config\<close> is the
  \<open>source_type\<close> entry of the dictionary the method returns.
\<close>

record adapter =
  adapter_search :: "string \<Rightarrow> nat \<Rightarrow> exn + quick_search_result list"
  get_node_details :: "string \<Rightarrow> exn + map_node"
  get_relationships :: "string \<Rightarrow> exn + relationship list"
  get_source_config :: "string option"
  get_ui_config :: ui_config

text \<open>
  The configuration \<open>_ensure_adapter_for_source\<close> hands to an adapter class: the source
  record with its connection settings merged in, the normalised name, the source type
  and the endpoint.
\<close>

record adapter_config =
  cfg_source :: source
  cfg_name :: string
  cfg_source_type :: string
  cfg_endpoint_url :: "string option"

text \<open>
  The registry: the live adapters by name, and the constructors of the five adapter
  classes (\<open>adapter_class\<close>), which \<open>_adapter_classes\<close> keys by source type.
\<close>

record adapter_registry =
  adapters :: "string \<Rightarrow> adapter option"
  adapter_class :: "string \<Rightarrow> adapter_config \<Rightarrow> adapter"

definition adapter_classes_get ::
  "adapter_registry \<Rightarrow> string \<Rightarrow> (adapter_config \<Rightarrow> adapter) option" where
  "adapter_classes_get reg source_type =
     (if source_type \<in> set [''wikidata'', ''oxigraph'', ''ontop'', ''django_db'', ''ols'']
      then Some (adapter_class reg source_type) else None)"

definition get_adapter :: "adapter_registry \<Rightarrow> string \<Rightarrow> exn + adapter" where
  "get_adapter reg source_name =
     (case adapters reg source_name of
        None \<Rightarrow> Inl (HTTPException 404
                  (''Data source '' @ [CHR 0x27] @ source_name @ [CHR 0x27] @ '' not found''))
      | Some a \<Rightarrow> Inr a)"

definition ensure_adapter_for_source :: "source \<Rightarrow> adapter_registry \<Rightarrow> adapter_registry" where
  "ensure_adapter_for_source src reg =
     (let source_name = source_key src in
      if source_name = [] then reg
      else if adapters reg source_name \<noteq> None then reg
      else
        (let t = str_or (src_type src) (str_or (src_source_type src) []);
             source_type = (if t = ''fuseki'' then ''oxigraph'' else t)
         in case adapter_classes_get reg source_type of
              None \<Rightarrow> reg
            | Some cls \<Rightarrow>
                (let cc = (case src_connection_config src of
                             None \<Rightarrow> \<lparr>endpoint = None, endpoint_url = None, api_url = None\<rparr>
                           | Some c \<Rightarrow> c);
                     config = \<lparr>cfg_source = src, cfg_name = source_name,
                               cfg_source_type = source_type,
                               cfg_endpoint_url =
                                 (case endpoint_url cc of None \<Rightarrow> api_url cc | Some u \<Rightarrow> Some u)\<rparr>
                 in reg\<lparr>adapters := (adapters reg)(source_name \<mapsto> cls config)\<rparr>)))"

section \<open>Resolving the sources of a request\<close>

text \<open>\<open>sorted({v for v in values if v})\<close>, and \<open>sorted\<close> of a set of names.\<close>

definition sorted_unique :: "string list \<Rightarrow> string list" where
  "sorted_unique values = sort (remdups (filter (\<lambda>v. v \<noteq> []) values))"

definition sorted_set :: "string list \<Rightarrow> string list" where
  "sorted_set values = sort (remdups values)"

text \<open>\<open>truthy_name s\<close> is the test \<open>if source.get("name")\<close>.\<close>

definition truthy_name :: "source \<Rightarrow> bool" where
  "truthy_name s = (str_or (src_name s) [] \<noteq> [])"

text \<open>
  The loop of the anonymous branch: each public candidate gets its adapter and adds its
  normalised name to \<open>public_sources\<close>.
\<close>

fun collect_public ::
  "source list \<Rightarrow> adapter_registry \<Rightarrow> string list \<Rightarrow> adapter_registry \<times> string list" where
  "collect_public [] reg public_sources = (reg, public_sources)"
| "collect_public (src # rest) reg public_sources =
     (if is_public_source_record src
      then collect_public rest (ensure_adapter_for_source src reg)
             (public_sources @ [source_key src])
      else collect_public rest reg public_sources)"

definition normalize_requested :: "string list option \<Rightarrow> string list option" where
  "normalize_requested requested_sources =
     (case requested_sources of
        None \<Rightarrow> None
      | Some rs \<Rightarrow>
          (if rs = [] then None
           else Some (map normalize_source_name
                        (filter (\<lambda>src. src \<noteq> [] \<and> strip src \<noteq> []) rs))))"

definition resolve_sources_for_request ::
  "backend \<Rightarrow> adapter_registry \<Rightarrow> string list option \<Rightarrow> string option
     \<Rightarrow> (exn + string list) \<times> adapter_registry" where
  "resolve_sources_for_request be reg requested_sources authorization =
     (case resolve_request_user be authorization of
        Inl e \<Rightarrow> (Inl e, reg)
      | Inr None \<Rightarrow>
          (case fetch_accessible_sources_for_user be None of
             Inl e \<Rightarrow> (Inl e, reg)
           | Inr candidates \<Rightarrow>
               (let (reg', collected) = collect_public candidates reg [];
                    public_sources = filter (\<lambda>name. name \<noteq> []) collected
                in case normalize_requested requested_sources of
                     Some normalized_requested \<Rightarrow>
                       (let forbidden =
                              filter (\<lambda>src. src \<notin> set public_sources) normalized_requested
                        in if forbidden \<noteq> [] then
                             (Inl (HTTPException 401
                                (''Authentication required for sources: ''
                                   @ join '', '' forbidden)), reg')
                           else
                             (Inr (filter (\<lambda>src. src \<in> set public_sources)
                                     normalized_requested), reg'))
                   | None \<Rightarrow> (Inr (sorted_set public_sources), reg')))
      | Inr (Some user) \<Rightarrow>
          (case fetch_accessible_sources_for_user be (user_id user) of
             Inl e \<Rightarrow> (Inl e, reg)
           | Inr accessible \<Rightarrow>
               (let reg' = fold ensure_adapter_for_source accessible reg;
                    accessible_names = map source_key (filter truthy_name accessible)
                in case normalize_requested requested_sources of
                     Some normalized_requested \<Rightarrow>
                       (let forbidden =
                              filter (\<lambda>src. src \<notin> set accessible_names) normalized_requested
                        in if forbidden \<noteq> [] then
                             (Inl (HTTPException 403
                                (''Access denied for sources: '' @ join '', '' forbidden)), reg')
                           else
                             (Inr (filter (\<lambda>src. src \<in> set accessible_names)
                                     normalized_requested), reg'))
                   | None \<Rightarrow> (Inr (sorted_set accessible_names), reg'))))"

section \<open>Search across sources\<close>

text \<open>
  The fan-out loop of \<open>search\<close>: a source whose adapter is missing or whose search raises
  is skipped (\<open>except Exception: continue\<close>); the others extend \<open>all_results\<close>.
\<close>

fun search_each ::
  "adapter_registry \<Rightarrow> string \<Rightarrow> nat \<Rightarrow> string list \<Rightarrow> quick_search_result list
     \<Rightarrow> quick_search_result list" where
  "search_each reg query limit [] all_results = all_results"
| "search_each reg query limit (src # rest) all_results =
     (case get_adapter reg src of
        Inl e \<Rightarrow> search_each reg query limit rest all_results
      | Inr a \<Rightarrow>
          (case adapter_search a query limit of
             Inl e \<Rightarrow> search_each reg query limit rest all_results
           | Inr results \<Rightarrow> search_each reg query limit rest (all_results @ results)))"

text \<open>The sort key \<open>(x.confidence or 0, x.relevance_score or 0)\<close>.\<close>

definition score_or_zero :: "real option \<Rightarrow> real" where
  "score_or_zero v = (case v of None \<Rightarrow> 0 | Some x \<Rightarrow> x)"

definition result_key :: "quick_search_result \<Rightarrow> real \<times> real" where
  "result_key x = (score_or_zero (confidence x), score_or_zero (relevance_score x))"

text \<open>
  \<open>list.sort(key=..., reverse=True)\<close>: a stable sort into descending order, which is the
  reverse of the stable ascending sort of the reversed list.
\<close>

definition sort_reverse :: "quick_search_result list \<Rightarrow> quick_search_result list" where
  "sort_reverse xs = rev (sort_key result_key (rev xs))"

definition search ::
  "backend \<Rightarrow> adapter_registry \<Rightarrow> string \<Rightarrow> string list option \<Rightarrow> nat \<Rightarrow> string option
     \<Rightarrow> (exn + quick_search_result list) \<times> adapter_registry" where
  "search be reg query sources limit authorization =
     (case resolve_sources_for_request be reg sources authorization of
        (Inl (HTTPException code detail), reg') \<Rightarrow> (Inl (HTTPException code detail), reg')
      | (Inl (OtherException msg), reg') \<Rightarrow>
          (Inl (HTTPException 500 (''Search failed: '' @ msg)), reg')
      | (Inr resolved, reg') \<Rightarrow>
          (Inr (take limit (sort_reverse (search_each reg' query limit resolved []))), reg'))"

section \<open>Map nodes\<close>







text \<open>
  The handler's exception clauses: an \<open>HTTPException\<close> is raised again, anything else
  becomes a 500 whose detail is the given prefix followed by \<open>str(e)\<close>.
\<close>

definition reraise :: "string \<Rightarrow> exn \<Rightarrow> exn" where
  "reraise prefix_text e =
     (case e of
        HTTPException code detail \<Rightarrow> HTTPException code detail
      | OtherException msg \<Rightarrow> HTTPException 500 (prefix_text @ msg))"



section \<open>Listing data sources\<close>

record source_payload =
  sp_id :: "int option"
  sp_name :: string
  sp_type :: string
  sp_active :: bool
  sp_description :: string
  sp_display_name :: string
  sp_icon :: string
  sp_color :: string
  sp_can_manage :: bool
  sp_can_admin :: bool
  sp_connection_config :: "connection_config option"
  sp_security_policy :: "security_policy option"

definition opt_or :: "string option \<Rightarrow> string \<Rightarrow> string" where
  "opt_or v dflt = (case v of None \<Rightarrow> dflt | Some x \<Rightarrow> x)"

text \<open>
  A dictionary comprehension over a list of keyed records: a later record replaces an
  earlier one with the same key.
\<close>

definition records_by_key :: "source list \<Rightarrow> (string \<times> source) list" where
  "records_by_key srcs = rev (map (\<lambda>s. (source_key s, s)) (filter truthy_name srcs))"

definition source_summary :: "adapter_registry \<Rightarrow> string \<Rightarrow> source \<Rightarrow> source_payload" where
  "source_summary reg source_name source_record =
     (let (config, ui) =
            (case adapters reg source_name of
               Some a \<Rightarrow> (get_source_config a, get_ui_config a)
             | None \<Rightarrow>
                 (Some (str_or (src_source_type source_record)
                          (str_or (src_type source_record) ''unknown'')),
                  (case src_ui_config source_record of
                     None \<Rightarrow> \<lparr>ui_description = None, ui_display_name = None,
                               ui_icon = None, ui_color = None\<rparr>
                   | Some u \<Rightarrow> u)));
          manage = truthy_opt (can_manage source_record)
      in \<lparr>sp_id = src_id source_record,
          sp_name = source_name,
          sp_type = str_or (src_source_type source_record) (opt_or config ''unknown''),
          sp_active = True,
          sp_description =
            str_or (src_description source_record)
              (opt_or (ui_description ui) (source_name @ '' data source'')),
          sp_display_name =
            opt_or (ui_display_name ui) (str_or (src_name source_record) source_name),
          sp_icon = opt_or (ui_icon ui) [CHR 0xF0, CHR 0x9F, CHR 0x93, CHR 0x8A],
          sp_color = opt_or (ui_color ui) ''#000000'',
          sp_can_manage = manage,
          sp_can_admin = truthy_opt (can_admin source_record),
          sp_connection_config =
            (if source_name = ''ontop'' \<and> manage
             then Some (case src_connection_config source_record of
                          None \<Rightarrow> \<lparr>endpoint = None, endpoint_url = None, api_url = None\<rparr>
                        | Some c \<Rightarrow> c)
             else None),
          sp_security_policy =
            (if source_name = ''ontop'' \<and> manage then Some (policy_of source_record)
             else None)\<rparr>)"

definition summaries :: "adapter_registry \<Rightarrow> (string \<times> source) list \<Rightarrow> source_payload list" where
  "summaries reg source_records =
     concat (map (\<lambda>source_name.
                    (case map_of source_records source_name of
                       None \<Rightarrow> []
                     | Some source_record \<Rightarrow> [source_summary reg source_name source_record]))
               (sorted_set (map fst source_records)))"

definition get_data_sources ::
  "backend \<Rightarrow> adapter_registry \<Rightarrow> string option
     \<Rightarrow> (exn + source_payload list) \<times> adapter_registry" where
  "get_data_sources be reg authorization =
     (case resolve_request_user be authorization of
        Inl e \<Rightarrow> (Inl (reraise ''Failed to get data sources: '' e), reg)
      | Inr (Some user) \<Rightarrow>
          (case fetch_accessible_sources_for_user be (user_id user) of
             Inl e \<Rightarrow> (Inl (reraise ''Failed to get data sources: '' e), reg)
           | Inr accessible_sources \<Rightarrow>
               (let reg' = fold ensure_adapter_for_source accessible_sources reg
                in (Inr (summaries reg' (records_by_key accessible_sources)), reg')))
      | Inr None \<Rightarrow>
          (case fetch_accessible_sources_for_user be None of
             Inl e \<Rightarrow> (Inl (reraise ''Failed to get data sources: '' e), reg)
           | Inr candidates \<Rightarrow>
               (let public_sources = filter is_public_source_record candidates;
                    reg' = fold ensure_adapter_for_source public_sources reg
                in (Inr (summaries reg' (records_by_key public_sources)), reg'))))"

section \<open>Capabilities\<close>

record features =
  can_view_public :: bool
  can_view_private :: bool
  can_save_graphs :: bool
  can_share_graphs :: bool
  can_write_back :: bool
  can_manage_sources :: bool

record capability_sources =
  cs_public :: "string list"
  cs_private :: "string list"
  cs_accessible :: "string list"

record capabilities =
  contract_version :: string
  authenticated :: bool
  mode :: string
  cap_user :: "user_payload option"
  cap_features :: features
  cap_sources :: capability_sources

definition PLUGIN_CONTRACT_VERSION :: string where
  "PLUGIN_CONTRACT_VERSION = ''2026-02-16''"

definition capability_snapshot :: "user_payload option \<Rightarrow> source list \<Rightarrow> capabilities" where
  "capability_snapshot user accessible_sources =
     (let accessible_names = sorted_unique (map source_key accessible_sources);
          public_names =
            sorted_unique (map source_key (filter is_public_source_record accessible_sources));
          private_names =
            sorted_unique (filter (\<lambda>name. name \<notin> set public_names) accessible_names);
          write_back =
            list_ex (\<lambda>s. truthy_opt (allow_write_back s)
                          \<and> (truthy_opt (can_admin s) \<or> truthy_opt (can_manage s)))
              accessible_sources;
          manage_sources =
            list_ex (\<lambda>s. truthy_opt (can_admin s) \<or> truthy_opt (can_manage s))
              accessible_sources;
          is_authenticated = (user \<noteq> None)
      in \<lparr>contract_version = PLUGIN_CONTRACT_VERSION,
          authenticated = is_authenticated,
          mode = (if is_authenticated then ''integrated'' else ''demo''),
          cap_user = (if is_authenticated then user else None),
          cap_features =
            \<lparr>can_view_public = True,
             can_view_private = (is_authenticated \<and> private_names \<noteq> []),
             can_save_graphs = is_authenticated,
             can_share_graphs = is_authenticated,
             can_write_back = (is_authenticated \<and> write_back),
             can_manage_sources = (is_authenticated \<and> manage_sources)\<rparr>,
          cap_sources =
            \<lparr>cs_public = public_names,
             cs_private = (if is_authenticated then private_names else []),
             cs_accessible = (if is_authenticated then accessible_names else public_names)\<rparr>\<rparr>)"

definition get_capabilities :: "backend \<Rightarrow> string option \<Rightarrow> exn + capabilities" where
  "get_capabilities be authorization =
     (case resolve_request_user be authorization of
        Inl e \<Rightarrow> Inl e
      | Inr user \<Rightarrow>
          (case fetch_accessible_sources_for_user be
                  (case user of None \<Rightarrow> None | Some u \<Rightarrow> user_id u) of
             Inl e \<Rightarrow> Inl e
           | Inr accessible_sources \<Rightarrow> Inr (capability_snapshot user accessible_sources)))"

section \<open>Write-back requests\<close>

text \<open>
  Modelled from the spec: the models \<open>DataSource\<close>, \<open>DataSourcePermission\<close> and
  \<open>WriteBackRequest\<close> are declared in the missing module \<open>graphs.models\<close>, and \<open>User\<close> is
  Django's. A source has its key, the active flag and the write-back flag; a permission
  grant names a source, a user and a permission kind; a write-back request has its key,
  source, requester, operation, table name, primary key, old and new values, status,
  rejection reason, approver and approval time. Fields that no view below reads or writes
  (filters, execution result, other timestamps) are left out. \<open>user\<close> below is always the
  effective user of the request, as \<open>_get_effective_user\<close> returns it.
\<close>

record django_user =
  user_pk :: nat
  user_name :: string
  is_superuser :: bool

record data_source =
  ds_pk :: nat
  ds_is_active :: bool
  ds_allow_write_back :: bool

record permission_grant =
  perm_source :: nat
  perm_user :: nat
  perm_kind :: string

record write_back_request =
  wb_id :: nat
  wb_data_source :: nat
  wb_requested_by :: nat
  wb_operation :: string
  wb_table_name :: string
  wb_primary_key :: json
  wb_old_values :: "json option"
  wb_new_values :: json
  wb_status :: string
  wb_rejection_reason :: string
  wb_approved_by :: "nat option"
  wb_approved_at :: "nat option"

record database =
  data_sources :: "data_source list"
  grants :: "permission_grant list"
  requests :: "write_back_request list"
  next_request_id :: nat

text \<open>
  The decoded body of a creation request; a key that is absent is \<open>None\<close>. The operation
  and the table name are JSON strings.
\<close>

record wb_payload =
  p_source_id :: "nat option"
  p_operation :: "string option"
  p_table_name :: "string option"
  p_primary_key :: "json option"
  p_old_values :: "json option"
  p_new_values :: "json option"

record approve_payload =
  ap_action :: "string option"
  ap_reason :: "string option"

datatype wb_body =
    Failure string
  | Created nat string string
  | Transitioned nat string string nat

record json_response =
  http_status :: nat
  body :: wb_body

text \<open>\<open>re.fullmatch(r'[A-Za-z_][A-Za-z0-9_]*', table_name)\<close>\<close>

definition is_identifier :: "string \<Rightarrow> bool" where
  "is_identifier s =
     (case s of
        [] \<Rightarrow> False
      | c # cs \<Rightarrow>
          c \<in> set ''abcdefghijklmnopqrstuvwxyzABCDEFGHIJKLMNOPQRSTUVWXYZ_''
          \<and> list_all is_word_char cs)"

definition missing_fields :: "wb_payload \<Rightarrow> string list" where
  "missing_fields p =
     (if p_source_id p = None then [''source_id''] else [])
     @ (if p_operation p = None then [''operation''] else [])
     @ (if p_table_name p = None then [''table_name''] else [])
     @ (if p_new_values p = None then [''new_values''] else [])"

definition has_grant :: "database \<Rightarrow> nat \<Rightarrow> nat \<Rightarrow> string list \<Rightarrow> bool" where
  "has_grant db source_pk upk kinds =
     list_ex (\<lambda>g. perm_source g = source_pk \<and> perm_user g = upk \<and> perm_kind g \<in> set kinds)
       (grants db)"

definition create_write_back_request ::
  "database \<Rightarrow> django_user \<Rightarrow> wb_payload option \<Rightarrow> json_response \<times> database" where
  "create_write_back_request db user payload_opt =
     (case payload_opt of
        None \<Rightarrow> (\<lparr>http_status = 400, body = Failure ''Invalid JSON''\<rparr>, db)
      | Some payload \<Rightarrow>
          (let operation = lower (strip (opt_or (p_operation payload) []));
               table_name = strip (opt_or (p_table_name payload) [])
           in
           if missing_fields payload \<noteq> [] then
             (\<lparr>http_status = 400,
               body = Failure (''Missing required fields: ''
                                 @ join '', '' (missing_fields payload))\<rparr>, db)
           else if operation \<notin> set [''insert'', ''update'', ''delete''] then
             (\<lparr>http_status = 400, body = Failure ''Invalid operation''\<rparr>, db)
           else if \<not> is_identifier table_name then
             (\<lparr>http_status = 400, body = Failure ''Invalid table_name''\<rparr>, db)
           else if \<not> (case p_new_values payload of None \<Rightarrow> False | Some v \<Rightarrow> is_dict v) then
             (\<lparr>http_status = 400, body = Failure ''new_values must be an object''\<rparr>, db)
           else if (case p_old_values payload of
                      None \<Rightarrow> False
                    | Some v \<Rightarrow> v \<noteq> JNull \<and> \<not> is_dict v) then
             (\<lparr>http_status = 400, body = Failure ''old_values must be an object''\<rparr>, db)
           else
             (case find (\<lambda>d. Some (ds_pk d) = p_source_id payload \<and> ds_is_active d)
                     (data_sources db) of
                None \<Rightarrow> (\<lparr>http_status = 404, body = Failure ''Data source not found''\<rparr>, db)
              | Some src \<Rightarrow>
                  if \<not> ds_allow_write_back src then
                    (\<lparr>http_status = 403,
                      body = Failure ''Write-back not enabled for this source''\<rparr>, db)
                  else if \<not> (is_superuser user
                               \<or> has_grant db (ds_pk src) (user_pk user)
                                    [''write_back'', ''admin'']) then
                    (\<lparr>http_status = 403, body = Failure ''Permission denied''\<rparr>, db)
                  else
                    (let request_obj =
                           \<lparr>wb_id = next_request_id db,
                            wb_data_source = ds_pk src,
                            wb_requested_by = user_pk user,
                            wb_operation = operation,
                            wb_table_name = table_name,
                            wb_primary_key =
                              (case p_primary_key payload of None \<Rightarrow> JStr [] | Some k \<Rightarrow> k),
                            wb_old_values = p_old_values payload,
                            wb_new_values =
                              (case p_new_values payload of None \<Rightarrow> JNull | Some v \<Rightarrow> v),
                            wb_status = ''pending'',
                            wb_rejection_reason = [],
                            wb_approved_by = None,
                            wb_approved_at = None\<rparr>
                     in (\<lparr>http_status = 201,
                          body = Created (wb_id request_obj) (wb_status request_obj)
                                   (wb_operation request_obj)\<rparr>,
                         db\<lparr>requests := requests db @ [request_obj],
                            next_request_id := Suc (next_request_id db)\<rparr>)))))"

text \<open>\<open>req.save(...)\<close>: the stored row with the request's key is replaced.\<close>

definition save_request :: "write_back_request \<Rightarrow> database \<Rightarrow> database" where
  "save_request req db =
     db\<lparr>requests := map (\<lambda>r. if wb_id r = wb_id req then req else r) (requests db)\<rparr>"

definition approve_write_back_request ::
  "database \<Rightarrow> django_user \<Rightarrow> nat \<Rightarrow> approve_payload option \<Rightarrow> nat
     \<Rightarrow> json_response \<times> database" where
  "approve_write_back_request db user request_id payload_opt now =
     (case find (\<lambda>r. wb_id r = request_id) (requests db) of
        None \<Rightarrow> (\<lparr>http_status = 404, body = Failure ''Request not found''\<rparr>, db)
      | Some req \<Rightarrow>
          if \<not> (is_superuser user
                  \<or> has_grant db (wb_data_source req) (user_pk user) [''admin'']) then
            (\<lparr>http_status = 403, body = Failure ''Permission denied''\<rparr>, db)
          else
            (let payload = (case payload_opt of
                              None \<Rightarrow> \<lparr>ap_action = None, ap_reason = None\<rparr>
                            | Some p \<Rightarrow> p);
                 action = lower (str_or (ap_action payload) ''approve'')
             in
             if wb_status req \<notin> set [''pending'', ''approved''] then
               (\<lparr>http_status = 400,
                 body = Failure (''Cannot process request in status '' @ wb_status req)\<rparr>, db)
             else
               (let req' =
                      (if action = ''reject'' then
                         req\<lparr>wb_status := ''rejected'',
                             wb_rejection_reason :=
                               opt_or (ap_reason payload) ''Rejected by approver''\<rparr>
                       else
                         req\<lparr>wb_status := ''approved'', wb_rejection_reason := []\<rparr>);
                    req'' = req'\<lparr>wb_approved_by := Some (user_pk user),
                                  wb_approved_at := Some now\<rparr>
                in (\<lparr>http_status = 200,
                     body = Transitioned (wb_id req'') (wb_status req'') (user_name user) now\<rparr>,
                    save_request req'' db))))"

text \<open>The status of a stored request, for statements about transitions.\<close>

definition status_of :: "database \<Rightarrow> nat \<Rightarrow> string option" where
  "status_of db request_id =
     map_option wb_status (find (\<lambda>r. wb_id r = request_id) (requests db))"

section \<open>Notions used in the statements\<close>

text \<open>
  The names a caller may use: for an anonymous caller the non-empty normalised names of
  the public candidates, for an authenticated caller the normalised names of the named
  sources the record store lists for them.
\<close>

definition accessible_names_for :: "user_payload option \<Rightarrow> source list \<Rightarrow> string list" where
  "accessible_names_for caller srcs =
     (case caller of
        None \<Rightarrow> filter (\<lambda>name. name \<noteq> [])
                  (map source_key (filter is_public_source_record srcs))
      | Some user \<Rightarrow> map source_key (filter truthy_name srcs))"

text \<open>
  What one source adds to a search, and whether its part of the fan-out fails (no adapter
  under that name, or the adapter's search raises).
\<close>

definition source_results ::
  "adapter_registry \<Rightarrow> string \<Rightarrow> nat \<Rightarrow> string \<Rightarrow> quick_search_result list" where
  "source_results reg query limit src =
     (case get_adapter reg src of
        Inl e \<Rightarrow> []
      | Inr a \<Rightarrow> (case adapter_search a query limit of Inl e \<Rightarrow> [] | Inr results \<Rightarrow> results))"

definition source_fails :: "adapter_registry \<Rightarrow> string \<Rightarrow> nat \<Rightarrow> string \<Rightarrow> bool" where
  "source_fails reg query limit src =
     (case get_adapter reg src of
        Inl e \<Rightarrow> True
      | Inr a \<Rightarrow> (case adapter_search a query limit of Inl e \<Rightarrow> True | Inr results \<Rightarrow> False))"

text \<open>The action a transition request asks for.\<close>

definition requested_action :: "approve_payload option \<Rightarrow> string" where
  "requested_action payload_opt =
     lower (str_or (case payload_opt of None \<Rightarrow> None | Some p \<Rightarrow> ap_action p) ''approve'')"

text \<open>
  The conditions of the write-back workflow on a creation request, with the operation and
  the table name read the way the view normalises them.
\<close>

definition creation_allowed :: "database \<Rightarrow> django_user \<Rightarrow> wb_payload \<Rightarrow> bool" where
  "creation_allowed db user payload =
     (case (p_source_id payload, p_operation payload, p_table_name payload,
            p_new_values payload) of
        (Some source_pk, Some operation, Some table_name, Some new_values) \<Rightarrow>
          lower (strip operation) \<in> set [''insert'', ''update'', ''delete'']
          \<and> is_identifier (strip table_name)
          \<and> is_dict new_values
          \<and> (case p_old_values payload of
                None \<Rightarrow> True
              | Some old_values \<Rightarrow> old_values = JNull \<or> is_dict old_values)
          \<and> (case find (\<lambda>d. ds_pk d = source_pk \<and> ds_is_active d) (data_sources db) of
                None \<Rightarrow> False
              | Some src \<Rightarrow>
                  ds_allow_write_back src
                  \<and> (is_superuser user
                      \<or> has_grant db (ds_pk src) (user_pk user) [''write_back'', ''admin'']))
      | other \<Rightarrow> False)"

definition is_failure :: "wb_body \<Rightarrow> bool" where
  "is_failure b = (case b of Failure msg \<Rightarrow> True | other \<Rightarrow> False)"

section \<open>Sample inputs\<close>

definition make_source :: "string \<Rightarrow> string \<Rightarrow> security_policy \<Rightarrow> source" where
  "make_source name type policy =
     \<lparr>src_id = None, src_name = Some name, src_type = Some type, src_source_type = None,
      src_description = None, src_security_policy = Some policy,
      src_connection_config = None, src_ui_config = None,
      allow_write_back = None, can_admin = None, can_manage = None\<rparr>"

definition public_policy :: security_policy where
  "public_policy = \<lparr>is_public = None, query_domains = Some (DomList [''public'']),
     admin_only_sparql_terms = None, admin_only_table_patterns = None\<rparr>"

definition internal_policy :: security_policy where
  "internal_policy = \<lparr>is_public = None, query_domains = Some (DomList [''internal'']),
     admin_only_sparql_terms = None, admin_only_table_patterns = None\<rparr>"


definition offline_adapter :: adapter where
  "offline_adapter =
     \<lparr>adapter_search = (\<lambda>query limit. Inl (OtherException ''connection refused'')),
      get_node_details = (\<lambda>nid. Inl (OtherException ''connection refused'')),
      get_relationships = (\<lambda>nid. Inl (OtherException ''connection refused'')),
      get_source_config = None,
      get_ui_config = \<lparr>ui_description = None, ui_display_name = None, ui_icon = None,
                        ui_color = None\<rparr>\<rparr>"

definition empty_registry :: adapter_registry where
  "empty_registry =
     \<lparr>adapters = (\<lambda>name. None), adapter_class = (\<lambda>t config. offline_adapter)\<rparr>"

definition alice :: user_payload where
  "alice = \<lparr>user_id = Some 7, username = Some ''alice''\<rparr>"

text \<open>A record store that accepts every token as \<open>alice\<close> and lists the given sources.\<close>

definition store_of :: "source list \<Rightarrow> backend" where
  "store_of srcs = \<lparr>validate_token = (\<lambda>token. Inr (Some alice)),
                     list_sources = (\<lambda>header. Inr srcs)\<rparr>"

text \<open>A record store whose validator rejects every token.\<close>

definition rejecting_store :: backend where
  "rejecting_store = \<lparr>validate_token = (\<lambda>token. Inr None),
                       list_sources = (\<lambda>header. Inr [])\<rparr>"

definition result_of :: "string \<Rightarrow> real \<Rightarrow> quick_search_result" where
  "result_of ident score =
     \<lparr>qs_label = ident, qs_id = ident, qs_description = None, qs_author = None,
      confidence = Some score, relevance_score = None\<rparr>"

definition good_adapter :: adapter where
  "good_adapter = offline_adapter
     \<lparr>adapter_search := (\<lambda>query limit.
        Inr [result_of ''a'' (1 / 2), result_of ''b'' (9 / 10), result_of ''c'' (7 / 10)])\<rparr>"

definition two_sources :: "source list" where
  "two_sources = [make_source ''Broken'' ''ontop'' internal_policy,
                  make_source ''Good'' ''ols'' internal_policy]"

definition two_adapters :: adapter_registry where
  "two_adapters = \<lparr>adapters = [''broken'' \<mapsto> offline_adapter, ''good'' \<mapsto> good_adapter],
                    adapter_class = (\<lambda>t config. offline_adapter)\<rparr>"

definition public_pair :: "source list" where
  "public_pair = [make_source ''Wiki Data'' ''external_api'' public_policy,
                  make_source ''ChEBI'' ''ols'' internal_policy]"

definition public_pair_listing :: "source_payload list" where
  "public_pair_listing =
     [\<lparr>sp_id = None, sp_name = ''chebi'', sp_type = ''unknown'', sp_active = True,
       sp_description = ''chebi data source'', sp_display_name = ''ChEBI'',
       sp_icon = [CHR 0xF0, CHR 0x9F, CHR 0x93, CHR 0x8A], sp_color = ''#000000'',
       sp_can_manage = False, sp_can_admin = False, sp_connection_config = None,
       sp_security_policy = None\<rparr>,
      \<lparr>sp_id = None, sp_name = ''wiki_data'', sp_type = ''external_api'', sp_active = True,
       sp_description = ''wiki_data data source'', sp_display_name = ''Wiki Data'',
       sp_icon = [CHR 0xF0, CHR 0x9F, CHR 0x93, CHR 0x8A], sp_color = ''#000000'',
       sp_can_manage = False, sp_can_admin = False, sp_connection_config = None,
       sp_security_policy = None\<rparr>]"

definition admin_user :: django_user where
  "admin_user = \<lparr>user_pk = 1, user_name = ''root'', is_superuser = True\<rparr>"

definition writer :: django_user where
  "writer = \<lparr>user_pk = 2, user_name = ''bob'', is_superuser = False\<rparr>"

definition pending_request :: write_back_request where
  "pending_request =
     \<lparr>wb_id = 1, wb_data_source = 10, wb_requested_by = 2, wb_operation = ''update'',
      wb_table_name = ''samples'', wb_primary_key = JStr ''42'', wb_old_values = None,
      wb_new_values = JObj [(''name'', JStr ''x'')], wb_status = ''pending'',
      wb_rejection_reason = [], wb_approved_by = None, wb_approved_at = None\<rparr>"

definition sample_db :: database where
  "sample_db =
     \<lparr>data_sources = [\<lparr>ds_pk = 10, ds_is_active = True, ds_allow_write_back = True\<rparr>],
      grants = [\<lparr>perm_source = 10, perm_user = 2, perm_kind = ''write_back''\<rparr>],
      requests = [pending_request],
      next_request_id = 2\<rparr>"

definition reject_action :: approve_payload where
  "reject_action = \<lparr>ap_action = Some ''reject'', ap_reason = Some ''duplicate''\<rparr>"

definition insert_payload :: wb_payload where
  "insert_payload =
     \<lparr>p_source_id = Some 10, p_operation = Some ''INSERT'', p_table_name = Some '' samples '',
      p_primary_key = None, p_old_values = None,
      p_new_values = Some (JObj [(''name'', JStr ''x'')])\<rparr>"

section \<open>Evaluation and helper lemmas\<close>

lemmas str_eval = strip_def lower_def lower_char_def is_space_def starts_with_def
  is_word_char_def replace_char_def

lemmas source_eval = is_public_source_record_def policy_of_def make_source_def
  public_policy_def internal_policy_def normalized_domains_def normalized_type_def
  source_key_def normalize_source_name_def truthy_name_def

lemmas user_eval = resolve_request_user_def extract_bearer_token_def split_once_def
  validate_user_token_def fetch_accessible_sources_for_user_def store_of_def alice_def

lemma collect_public_names:
  "snd (collect_public srcs reg acc) =
     acc @ map source_key (filter is_public_source_record srcs)"
  by (induction srcs arbitrary: reg acc) simp_all

lemma collect_public_registry:
  "fst (collect_public srcs reg acc) =
     fold ensure_adapter_for_source (filter is_public_source_record srcs) reg"
  by (induction srcs arbitrary: reg acc) simp_all

section \<open>C1: requests for sources the caller may not use\<close>

text \<open>
  C1, as amended. Blank requested names are dropped and the others normalised. If one of
  them is outside the caller's accessible names, resolution fails with a single
  \<open>HTTPException\<close> whose detail lists, in request order, every requested name outside
  the accessible names. The status is 401 whenever the caller is anonymous and 403
  whenever the caller is authenticated.
\<close>

theorem C1_forbidden_sources:
  assumes user: "resolve_request_user be authorization = Inr caller"
    and fetch: "fetch_accessible_sources_for_user be
                  (case caller of None \<Rightarrow> None | Some u \<Rightarrow> user_id u) = Inr srcs"
    and wanted: "normalize_requested requested = Some wanted"
    and offending: "n \<in> set wanted" "n \<notin> set (accessible_names_for caller srcs)"
  shows "fst (resolve_sources_for_request be reg requested authorization) =
           Inl (HTTPException (if caller = None then 401 else 403)
                  ((if caller = None then ''Authentication required for sources: ''
                    else ''Access denied for sources: '')
                   @ join '', ''
                       (filter (\<lambda>src. src \<notin> set (accessible_names_for caller srcs)) wanted)))"
proof -
  have ne: "filter (\<lambda>src. src \<notin> set (accessible_names_for caller srcs)) wanted \<noteq> []"
    using offending by (auto simp add: filter_empty_conv)
  show ?thesis
  proof (cases caller)
    case None
    then show ?thesis
      using user fetch wanted ne
      by (simp add: resolve_sources_for_request_def accessible_names_for_def
          collect_public_names split_beta Let_def)
  next
    case (Some u)
    then show ?thesis
      using user fetch wanted ne
      by (simp add: resolve_sources_for_request_def accessible_names_for_def Let_def)
  qed
qed

theorem C1_witness:
  "fst (resolve_sources_for_request
          (store_of [make_source ''Wikidata'' ''external_api'' public_policy])
          empty_registry (Some [''Private Ontop'', ''wikidata'', ''HR DB'']) None) =
     Inl (HTTPException 401 ''Authentication required for sources: private_ontop, hr_db'')"
proof -
  let ?w = "make_source ''Wikidata'' ''external_api'' public_policy"
  have 1: "resolve_request_user (store_of [?w]) None = Inr None"
    by (simp add: resolve_request_user_def extract_bearer_token_def)
  have 2: "fetch_accessible_sources_for_user (store_of [?w])
             (case None of None \<Rightarrow> None | Some u \<Rightarrow> user_id u) = Inr [?w]"
    by (simp add: fetch_accessible_sources_for_user_def store_of_def)
  have 3: "normalize_requested (Some [''Private Ontop'', ''wikidata'', ''HR DB'']) =
             Some [''private_ontop'', ''wikidata'', ''hr_db'']"
    by (simp add: normalize_requested_def normalize_source_name_def str_eval)
  have acc: "accessible_names_for None [?w] = [''wikidata'']"
    by (simp add: accessible_names_for_def source_eval str_eval)
  have 4: "''hr_db'' \<in> set [''private_ontop'', ''wikidata'', ''hr_db'']"
    by simp
  have 5: "''hr_db'' \<notin> set (accessible_names_for None [?w])"
    by (simp add: acc)
  show ?thesis
    using C1_forbidden_sources [OF 1 2 3 4 5, of empty_registry]
    by (simp add: acc)
qed

text \<open>
  C1 as stated fails on the status: with a record store that lists no source to anybody,
  an authenticated caller asking for \<open>ghost\<close> is denied with 403, so the name is visible to
  no authenticated caller, and the anonymous caller asking for it still gets 401.
\<close>

theorem C1_counterexample:
  "list_sources (store_of []) (Some 7) = Inr []
   \<and> fst (resolve_sources_for_request (store_of []) empty_registry (Some [''ghost''])
            (Some ''Bearer t0ken'')) =
       Inl (HTTPException 403 ''Access denied for sources: ghost'')
   \<and> fst (resolve_sources_for_request (store_of []) empty_registry (Some [''ghost'']) None) =
       Inl (HTTPException 401 ''Authentication required for sources: ghost'')"
  by (simp add: resolve_sources_for_request_def user_eval normalize_requested_def
      normalize_source_name_def str_eval)

section \<open>C2: transitions of a write-back request\<close>

lemma find_id: "find (\<lambda>r. wb_id r = rid) rs = Some req \<Longrightarrow> wb_id req = rid"
  by (induction rs) (auto split: if_splits)

lemma find_after_save:
  "find (\<lambda>r. wb_id r = wb_id q) rs = Some req
   \<Longrightarrow> find (\<lambda>r. wb_id r = wb_id q) (map (\<lambda>r. if wb_id r = wb_id q then q else r) rs) =
         Some q"
  by (induction rs) (auto split: if_splits)

lemma status_after_save:
  "find (\<lambda>r. wb_id r = wb_id q) (requests db) = Some req
   \<Longrightarrow> status_of (save_request q db) (wb_id q) = Some (wb_status q)"
  by (simp add: status_of_def save_request_def find_after_save)

text \<open>
  C2, as amended. For a stored request and a caller with admin rights on its source: a
  request that is \<open>pending\<close> or \<open>approved\<close> is processed with status 200 and ends in
  exactly one status, \<open>rejected\<close> when the action is \<open>reject\<close> and \<open>approved\<close> otherwise;
  a request in any other status, \<open>rejected\<close> included, is refused with status 400 and an
  error naming the current status, and nothing is changed.
\<close>

theorem C2_status_transitions:
  assumes found: "find (\<lambda>r. wb_id r = rid) (requests db) = Some req"
    and admin: "is_superuser user \<or> has_grant db (wb_data_source req) (user_pk user) [''admin'']"
  shows "(wb_status req = ''pending'' \<or> wb_status req = ''approved''
            \<longrightarrow> http_status (fst (approve_write_back_request db user rid payload now)) = 200
                \<and> status_of (snd (approve_write_back_request db user rid payload now)) rid =
                    Some (if requested_action payload = ''reject'' then ''rejected''
                          else ''approved''))
       \<and> (wb_status req \<noteq> ''pending'' \<and> wb_status req \<noteq> ''approved''
            \<longrightarrow> approve_write_back_request db user rid payload now =
                  (\<lparr>http_status = 400,
                    body = Failure (''Cannot process request in status '' @ wb_status req)\<rparr>,
                   db))"
proof (intro conjI impI)
  assume "wb_status req \<noteq> ''pending'' \<and> wb_status req \<noteq> ''approved''"
  then show "approve_write_back_request db user rid payload now =
                  (\<lparr>http_status = 400,
                    body = Failure (''Cannot process request in status '' @ wb_status req)\<rparr>,
                   db)"
    using found admin by (simp add: approve_write_back_request_def Let_def)
next
  assume ok: "wb_status req = ''pending'' \<or> wb_status req = ''approved''"
  have rid: "wb_id req = rid" using found by (rule find_id)
  define st where "st = (if requested_action payload = ''reject'' then ''rejected''
                          else ''approved'')"
  obtain q where q: "wb_id q = rid" "wb_status q = st"
    and run: "approve_write_back_request db user rid payload now =
           (\<lparr>http_status = 200, body = Transitioned rid st (user_name user) now\<rparr>,
            save_request q db)"
  proof (cases "requested_action payload = ''reject''")
    case True
    show ?thesis
      by (rule that [of "req\<lparr>wb_status := ''rejected'',
               wb_rejection_reason :=
                 opt_or (ap_reason (case payload of
                              None \<Rightarrow> \<lparr>ap_action = None, ap_reason = None\<rparr>
                            | Some p \<Rightarrow> p)) ''Rejected by approver'',
               wb_approved_by := Some (user_pk user), wb_approved_at := Some now\<rparr>"])
         (use found admin ok rid True in
           \<open>auto simp add: approve_write_back_request_def Let_def st_def requested_action_def
              split: option.splits\<close>)
  next
    case False
    show ?thesis
      by (rule that [of "req\<lparr>wb_status := ''approved'', wb_rejection_reason := [],
               wb_approved_by := Some (user_pk user), wb_approved_at := Some now\<rparr>"])
         (use found admin ok rid False in
           \<open>auto simp add: approve_write_back_request_def Let_def st_def requested_action_def
              split: option.splits\<close>)
  qed
  show "http_status (fst (approve_write_back_request db user rid payload now)) = 200"
    by (simp add: run)
  have "status_of (save_request q db) (wb_id q) = Some (wb_status q)"
    using found q(1) by (intro status_after_save) simp
  then show "status_of (snd (approve_write_back_request db user rid payload now)) rid =
                    Some (if requested_action payload = ''reject'' then ''rejected''
                          else ''approved'')"
    by (simp add: run q st_def)
qed

theorem C2_witness:
  "status_of (snd (approve_write_back_request sample_db admin_user 1 None 100)) 1 =
     Some ''approved''
   \<and> approve_write_back_request
        (snd (approve_write_back_request sample_db admin_user 1 (Some reject_action) 100))
        admin_user 1 None 200 =
      (\<lparr>http_status = 400, body = Failure ''Cannot process request in status rejected''\<rparr>,
       snd (approve_write_back_request sample_db admin_user 1 (Some reject_action) 100))"
proof -
  have f: "find (\<lambda>r. wb_id r = 1) (requests sample_db) = Some pending_request"
    by (simp add: sample_db_def pending_request_def)
  have a: "is_superuser admin_user
           \<or> has_grant db (wb_data_source r) (user_pk admin_user) [''admin'']" for db r
    by (simp add: admin_user_def)
  have p: "wb_status pending_request = ''pending''"
    by (simp add: pending_request_def)
  have act: "requested_action None = ''approve''"
    "requested_action (Some reject_action) = ''reject''"
    by (simp_all add: requested_action_def reject_action_def str_eval)
  let ?db1 = "snd (approve_write_back_request sample_db admin_user 1 (Some reject_action) 100)"
  have s1: "status_of ?db1 1 = Some ''rejected''"
    using C2_status_transitions [OF f a, of "Some reject_action" 100] p act by simp
  then obtain req1 where f1: "find (\<lambda>r. wb_id r = 1) (requests ?db1) = Some req1"
    and st1: "wb_status req1 = ''rejected''"
    by (auto simp add: status_of_def)
  show ?thesis
    using C2_status_transitions [OF f a, of None 100] p act
      C2_status_transitions [OF f1 a, of None 200] st1
    by simp
qed

text \<open>
  C2 as stated fails: the same request is approved and then, without a new request,
  rejected; the second transition is accepted with status 200.
\<close>

theorem C2_counterexample:
  "status_of sample_db 1 = Some ''pending''
   \<and> status_of (snd (approve_write_back_request sample_db admin_user 1 None 100)) 1 =
       Some ''approved''
   \<and> status_of (snd (approve_write_back_request
                       (snd (approve_write_back_request sample_db admin_user 1 None 100))
                       admin_user 1 (Some reject_action) 200)) 1 =
       Some ''rejected''
   \<and> http_status (fst (approve_write_back_request
                       (snd (approve_write_back_request sample_db admin_user 1 None 100))
                       admin_user 1 (Some reject_action) 200)) = 200"
  by (simp add: approve_write_back_request_def Let_def status_of_def save_request_def
      sample_db_def pending_request_def admin_user_def reject_action_def str_eval)

section \<open>C3: admin-only terms of a virtual-RDF source\<close>




section \<open>C4: public classification\<close>

text \<open>
  C4, as amended. A source record is classified public exactly when its policy's
  \<open>is_public\<close> is truthy, or its normalised query-domain list holds \<open>*\<close> or \<open>public\<close>,
  or its type is \<open>ols\<close> and \<open>is_public\<close> is not the boolean false, or its type is not
  \<open>ols\<close> and its normalised name is \<open>wikidata\<close>. The well-known name is consulted only
  for a source that is not of type \<open>ols\<close>.
\<close>

theorem C4_public_classification:
  "is_public_source_record s \<longleftrightarrow>
     truthy_opt (is_public (policy_of s))
     \<or> (''*'' \<in> set (normalized_domains (policy_of s))
         \<or> ''public'' \<in> set (normalized_domains (policy_of s)))
     \<or> (normalized_type s = ''ols'' \<and> is_public (policy_of s) \<noteq> Some (JBool False))
     \<or> (normalized_type s \<noteq> ''ols'' \<and> source_key s = ''wikidata'')"
  unfolding is_public_source_record_def Let_def
  by (cases "is_public (policy_of s)") auto

theorem C4_witness:
  "is_public_source_record
     (make_source ''Wiki Data'' ''external_api''
        \<lparr>is_public = None, query_domains = Some (DomList ['' Public '']),
         admin_only_sparql_terms = None, admin_only_table_patterns = None\<rparr>)"
  unfolding C4_public_classification
  by (simp add: policy_of_def make_source_def normalized_domains_def str_eval)

text \<open>
  C4 as stated fails: an \<open>ols\<close> source whose policy sets \<open>is_public\<close> to false is
  classified private although its normalised name is \<open>wikidata\<close>.
\<close>

theorem C4_counterexample:
  "source_key
     (make_source ''Wikidata'' ''ols''
        \<lparr>is_public = Some (JBool False), query_domains = None,
         admin_only_sparql_terms = None, admin_only_table_patterns = None\<rparr>) = ''wikidata''
   \<and> \<not> is_public_source_record
     (make_source ''Wikidata'' ''ols''
        \<lparr>is_public = Some (JBool False), query_domains = None,
         admin_only_sparql_terms = None, admin_only_table_patterns = None\<rparr>)"
  by (simp add: source_eval str_eval)

section \<open>C5: capabilities of an anonymous caller\<close>

text \<open>
  C5, as amended. When the request carries no bearer token (no \<open>Authorization\<close> header,
  or one that is not of the form \<open>Bearer\<close> followed by a non-blank credential) and the
  record store answers, the capability snapshot is returned with mode \<open>demo\<close>,
  \<open>authenticated\<close> false, no user, an empty private list, the accessible list equal to
  the public list, and \<open>can_write_back\<close> and \<open>can_manage_sources\<close> both false. When the
  header carries a bearer token that the validator rejects, no snapshot is returned at
  all: the request fails with 401 and the detail \<open>Invalid token\<close>.
\<close>

theorem C5_anonymous_capabilities:
  "(extract_bearer_token authorization = None \<and> list_sources be None = Inr srcs
      \<longrightarrow> (\<exists>snap. get_capabilities be authorization = Inr snap
             \<and> mode snap = ''demo''
             \<and> authenticated snap = False
             \<and> cap_user snap = None
             \<and> cs_private (cap_sources snap) = []
             \<and> cs_accessible (cap_sources snap) = cs_public (cap_sources snap)
             \<and> can_write_back (cap_features snap) = False
             \<and> can_manage_sources (cap_features snap) = False))
   \<and> (extract_bearer_token authorization = Some token \<and> validate_token be token = Inr None
      \<longrightarrow> get_capabilities be authorization = Inl (HTTPException 401 ''Invalid token''))"
  by (simp add: get_capabilities_def resolve_request_user_def validate_user_token_def
      fetch_accessible_sources_for_user_def capability_snapshot_def Let_def)

text \<open>The anonymous case of the repository's own test of the capabilities endpoint.\<close>

theorem C5_witness:
  "get_capabilities
     (store_of [make_source ''Wikidata'' ''external_api'' public_policy,
                (make_source ''Private Ontop'' ''ontop'' internal_policy)
                  \<lparr>allow_write_back := Some (JBool True), can_admin := Some (JBool True)\<rparr>])
     None =
   Inr \<lparr>contract_version = ''2026-02-16'', authenticated = False, mode = ''demo'',
        cap_user = None,
        cap_features = \<lparr>can_view_public = True, can_view_private = False,
          can_save_graphs = False, can_share_graphs = False, can_write_back = False,
          can_manage_sources = False\<rparr>,
        cap_sources = \<lparr>cs_public = [''wikidata''], cs_private = [],
          cs_accessible = [''wikidata'']\<rparr>\<rparr>
   \<and> get_capabilities rejecting_store (Some ''Bearer expired'') =
       Inl (HTTPException 401 ''Invalid token'')"
proof -
  let ?srcs = "[make_source ''Wikidata'' ''external_api'' public_policy,
                (make_source ''Private Ontop'' ''ontop'' internal_policy)
                  \<lparr>allow_write_back := Some (JBool True), can_admin := Some (JBool True)\<rparr>]"
  have 1: "extract_bearer_token None = None"
    by (simp add: extract_bearer_token_def)
  have 2: "list_sources (store_of ?srcs) None = Inr ?srcs"
    by (simp add: store_of_def)
  have pub: "cs_public (cap_sources (capability_snapshot None ?srcs)) = [''wikidata'']"
    by (simp add: capability_snapshot_def Let_def sorted_unique_def source_eval str_eval)
  from C5_anonymous_capabilities [of None "store_of ?srcs" ?srcs] 1 2 obtain snap where
    s: "get_capabilities (store_of ?srcs) None = Inr snap"
      "mode snap = ''demo''" "authenticated snap = False" "cap_user snap = None"
      "cs_private (cap_sources snap) = []"
      "cs_accessible (cap_sources snap) = cs_public (cap_sources snap)"
      "can_write_back (cap_features snap) = False"
      "can_manage_sources (cap_features snap) = False"
    by blast
  have snap: "snap = capability_snapshot None ?srcs"
    using s(1) 2
    by (simp add: get_capabilities_def resolve_request_user_def extract_bearer_token_def
        fetch_accessible_sources_for_user_def)
  have rest: "contract_version snap = ''2026-02-16''"
    "can_view_public (cap_features snap) = True"
    "can_view_private (cap_features snap) = False"
    "can_save_graphs (cap_features snap) = False"
    "can_share_graphs (cap_features snap) = False"
    unfolding snap by (simp_all add: capability_snapshot_def Let_def PLUGIN_CONTRACT_VERSION_def)
  have "snap = \<lparr>contract_version = ''2026-02-16'', authenticated = False, mode = ''demo'',
        cap_user = None,
        cap_features = \<lparr>can_view_public = True, can_view_private = False,
          can_save_graphs = False, can_share_graphs = False, can_write_back = False,
          can_manage_sources = False\<rparr>,
        cap_sources = \<lparr>cs_public = [''wikidata''], cs_private = [],
          cs_accessible = [''wikidata'']\<rparr>\<rparr>"
    using s(2-8) rest pub [folded snap]
    by (cases snap, cases "cap_features snap", cases "cap_sources snap") simp
  moreover have "extract_bearer_token (Some ''Bearer expired'') = Some ''expired''
                 \<and> validate_token rejecting_store ''expired'' = Inr None"
    by (simp add: extract_bearer_token_def split_once_def rejecting_store_def str_eval)
  then have "get_capabilities rejecting_store (Some ''Bearer expired'') =
               Inl (HTTPException 401 ''Invalid token'')"
    using C5_anonymous_capabilities [of "Some ''Bearer expired''" rejecting_store "[]" "''expired''"]
    by blast
  ultimately show ?thesis using s(1) by simp
qed

text \<open>
  C5 as stated fails for a request without a valid bearer token: a well-formed bearer
  token that the validator rejects is answered with 401, not with a \<open>demo\<close> snapshot.
\<close>

theorem C5_counterexample:
  "extract_bearer_token (Some ''Bearer expired'') = Some ''expired''
   \<and> validate_token rejecting_store ''expired'' = Inr None
   \<and> get_capabilities rejecting_store (Some ''Bearer expired'') =
       Inl (HTTPException 401 ''Invalid token'')"
  by (simp add: get_capabilities_def resolve_request_user_def validate_user_token_def
      extract_bearer_token_def split_once_def rejecting_store_def str_eval)

section \<open>C6: only a single SELECT reaches the relational backend\<close>



section \<open>C7: partial results of the search fan-out\<close>

lemma search_each_concat:
  "search_each reg query limit srcs acc =
     acc @ concat (map (source_results reg query limit) srcs)"
  by (induction srcs arbitrary: acc)
     (simp_all add: source_results_def split: sum.splits)

lemma concat_skip_failing:
  "concat (map (source_results reg query limit) srcs) =
     concat (map (source_results reg query limit)
               (filter (\<lambda>s. \<not> source_fails reg query limit s) srcs))"
  by (induction srcs)
     (auto simp add: source_results_def source_fails_def split: sum.splits)

lemma sorted_confidence:
  "sorted (map result_key xs) \<Longrightarrow> sorted (map (\<lambda>x. score_or_zero (confidence x)) xs)"
  by (induction xs) (auto simp add: result_key_def less_eq_prod_def)

lemma sort_reverse_descending:
  "sorted (rev (map (\<lambda>x. score_or_zero (confidence x)) (sort_reverse xs)))"
  by (simp add: sort_reverse_def rev_map [symmetric] sorted_confidence)

lemma sorted_rev_take:
  fixes ys :: "real list"
  shows "sorted (rev ys) \<Longrightarrow> sorted (rev (take n ys))"
  by (metis append_take_drop_id rev_append sorted_append)

text \<open>
  C7. Once the sources of a search are resolved, the search does not fail: it returns
  the results of the sources that did not fail, and of those only (a failing source adds
  nothing and changes nothing for the others), sorted by confidence in descending order
  (a missing confidence counts as 0) and cut to the limit.
\<close>

theorem C7_search_partial_results:
  assumes "resolve_sources_for_request be reg sources authorization = (Inr resolved, reg')"
  shows "\<exists>results.
           search be reg query sources limit authorization = (Inr results, reg')
           \<and> results = take limit (sort_reverse
                 (concat (map (source_results reg' query limit)
                            (filter (\<lambda>s. \<not> source_fails reg' query limit s) resolved))))
           \<and> sorted (rev (map (\<lambda>x. score_or_zero (confidence x)) results))
           \<and> length results \<le> limit"
proof -
  let ?all = "concat (map (source_results reg' query limit) resolved)"
  have "search be reg query sources limit authorization =
          (Inr (take limit (sort_reverse ?all)), reg')"
    using assms by (simp add: search_def search_each_concat)
  moreover have "sorted (rev (map (\<lambda>x. score_or_zero (confidence x))
                   (take limit (sort_reverse ?all))))"
    using sorted_rev_take [OF sort_reverse_descending] by (simp add: take_map)
  ultimately show ?thesis
    using concat_skip_failing [of reg' query limit resolved] by simp
qed

lemma two_resolve:
  "resolve_sources_for_request (store_of two_sources) two_adapters None (Some ''Bearer t0ken'') =
     (Inr [''broken'', ''good''], two_adapters)"
  by (simp add: resolve_sources_for_request_def user_eval normalize_requested_def
      two_sources_def two_adapters_def ensure_adapter_for_source_def source_eval
      sorted_set_def str_eval)

text \<open>
  The scenario of the claim: two accessible sources, one failing with a connection
  error, one returning three results, limit 10.
\<close>

theorem C7_witness:
  "search (store_of two_sources) two_adapters ''aspirin'' None 10 (Some ''Bearer t0ken'') =
     (Inr [result_of ''b'' (9 / 10), result_of ''c'' (7 / 10), result_of ''a'' (1 / 2)],
      two_adapters)"
proof -
  have fails: "source_fails two_adapters ''aspirin'' 10 ''broken''"
    "\<not> source_fails two_adapters ''aspirin'' 10 ''good''"
    by (simp_all add: source_fails_def get_adapter_def two_adapters_def offline_adapter_def
        good_adapter_def)
  have res: "source_results two_adapters ''aspirin'' 10 ''good'' =
               [result_of ''a'' (1 / 2), result_of ''b'' (9 / 10), result_of ''c'' (7 / 10)]"
    by (simp add: source_results_def get_adapter_def two_adapters_def offline_adapter_def
        good_adapter_def)
  have srt: "sort_reverse
               [result_of ''a'' (1 / 2), result_of ''b'' (9 / 10), result_of ''c'' (7 / 10)] =
               [result_of ''b'' (9 / 10), result_of ''c'' (7 / 10), result_of ''a'' (1 / 2)]"
    by (simp add: sort_reverse_def result_key_def score_or_zero_def result_of_def
        less_eq_prod_def)
  show ?thesis
    using C7_search_partial_results [OF two_resolve, of "''aspirin''" 10]
    by (auto simp add: fails res srt)
qed

section \<open>C8: creating a write-back request\<close>

lemma find_holds: "find P xs = Some x \<Longrightarrow> P x"
  by (induction xs) (auto split: if_splits)

text \<open>
  C8, as amended. For a creation request whose body is a JSON object with a numeric
  \<open>source_id\<close> and string \<open>operation\<close> and \<open>table_name\<close>: it succeeds, with status 201 and
  one new request in status \<open>pending\<close> appended, exactly when the source exists, is
  active and has write-back enabled; the caller is superuser or holds \<open>write_back\<close> or
  \<open>admin\<close> on it; the operation, trimmed and lower-cased, is one of insert, update,
  delete; the table name, trimmed, matches the identifier pattern; \<open>new_values\<close> is an
  object; and \<open>old_values\<close>, if present and not null, is an object. The stored request is
  determined by the body: it carries the next key, the source, the caller as requester,
  the operation trimmed and lower-cased, the table name trimmed, the primary key (the
  empty string when absent), the old and new values as given, status \<open>pending\<close>, an
  empty rejection reason and no approver; the answer reports its key, status and
  operation. Otherwise, and when the body is not valid JSON, the answer is an error (400,
  403 or 404) and no request is created.
\<close>

theorem C8_create_write_back:
  "(creation_allowed db user payload
      \<longrightarrow> http_status (fst (create_write_back_request db user (Some payload))) = 201
          \<and> (\<exists>req. snd (create_write_back_request db user (Some payload)) =
                      db\<lparr>requests := requests db @ [req],
                         next_request_id := Suc (next_request_id db)\<rparr>
                    \<and> body (fst (create_write_back_request db user (Some payload))) =
                        Created (wb_id req) ''pending'' (wb_operation req)
                    \<and> wb_id req = next_request_id db
                    \<and> Some (wb_data_source req) = p_source_id payload
                    \<and> wb_requested_by req = user_pk user
                    \<and> Some (wb_operation req) =
                        map_option (\<lambda>operation. lower (strip operation)) (p_operation payload)
                    \<and> Some (wb_table_name req) = map_option strip (p_table_name payload)
                    \<and> wb_primary_key req =
                        (case p_primary_key payload of None \<Rightarrow> JStr [] | Some k \<Rightarrow> k)
                    \<and> wb_old_values req = p_old_values payload
                    \<and> Some (wb_new_values req) = p_new_values payload
                    \<and> wb_status req = ''pending''
                    \<and> wb_rejection_reason req = []
                    \<and> wb_approved_by req = None
                    \<and> wb_approved_at req = None
                    \<and> wb_operation req \<in> set [''insert'', ''update'', ''delete'']
                    \<and> is_identifier (wb_table_name req)))
   \<and> (\<not> creation_allowed db user payload
      \<longrightarrow> http_status (fst (create_write_back_request db user (Some payload)))
            \<in> set [400, 403, 404]
          \<and> is_failure (body (fst (create_write_back_request db user (Some payload))))
          \<and> snd (create_write_back_request db user (Some payload)) = db)
   \<and> create_write_back_request db user None =
        (\<lparr>http_status = 400, body = Failure ''Invalid JSON''\<rparr>, db)"
proof (intro conjI impI)
  assume a: "creation_allowed db user payload"
  then obtain source_pk operation table_name new_values where
    p: "p_source_id payload = Some source_pk" "p_operation payload = Some operation"
       "p_table_name payload = Some table_name" "p_new_values payload = Some new_values"
    by (auto simp add: creation_allowed_def split: option.splits)
  from a p obtain src where
    src: "find (\<lambda>d. ds_pk d = source_pk \<and> ds_is_active d) (data_sources db) = Some src"
    by (auto simp add: creation_allowed_def split: option.splits)
  have pk: "ds_pk src = source_pk"
    using find_holds [OF src] by simp
  have ok: "lower (strip operation) \<in> set [''insert'', ''update'', ''delete'']"
    "is_identifier (strip table_name)"
    using a p by (auto simp add: creation_allowed_def)
  define req where "req =
             \<lparr>wb_id = next_request_id db, wb_data_source = ds_pk src,
              wb_requested_by = user_pk user, wb_operation = lower (strip operation),
              wb_table_name = strip table_name,
              wb_primary_key = (case p_primary_key payload of None \<Rightarrow> JStr [] | Some k \<Rightarrow> k),
              wb_old_values = p_old_values payload, wb_new_values = new_values,
              wb_status = ''pending'', wb_rejection_reason = [],
              wb_approved_by = None, wb_approved_at = None\<rparr>"
  have run: "create_write_back_request db user (Some payload) =
     (\<lparr>http_status = 201,
       body = Created (next_request_id db) ''pending'' (lower (strip operation))\<rparr>,
      db\<lparr>requests := requests db @ [req],
          next_request_id := Suc (next_request_id db)\<rparr>)"
    unfolding req_def using a p src
    by (auto simp add: creation_allowed_def create_write_back_request_def missing_fields_def
        opt_or_def Let_def split: option.splits)
  show "http_status (fst (create_write_back_request db user (Some payload))) = 201"
    by (simp add: run)
  have fields: "wb_id req = next_request_id db" "wb_data_source req = source_pk"
    "wb_requested_by req = user_pk user" "wb_operation req = lower (strip operation)"
    "wb_table_name req = strip table_name"
    "wb_primary_key req = (case p_primary_key payload of None \<Rightarrow> JStr [] | Some k \<Rightarrow> k)"
    "wb_old_values req = p_old_values payload" "wb_new_values req = new_values"
    "wb_status req = ''pending''" "wb_rejection_reason req = []"
    "wb_approved_by req = None" "wb_approved_at req = None"
    by (simp_all add: req_def pk)
  show "\<exists>req. snd (create_write_back_request db user (Some payload)) =
                      db\<lparr>requests := requests db @ [req],
                         next_request_id := Suc (next_request_id db)\<rparr>
                    \<and> body (fst (create_write_back_request db user (Some payload))) =
                        Created (wb_id req) ''pending'' (wb_operation req)
                    \<and> wb_id req = next_request_id db
                    \<and> Some (wb_data_source req) = p_source_id payload
                    \<and> wb_requested_by req = user_pk user
                    \<and> Some (wb_operation req) =
                        map_option (\<lambda>operation. lower (strip operation)) (p_operation payload)
                    \<and> Some (wb_table_name req) = map_option strip (p_table_name payload)
                    \<and> wb_primary_key req =
                        (case p_primary_key payload of None \<Rightarrow> JStr [] | Some k \<Rightarrow> k)
                    \<and> wb_old_values req = p_old_values payload
                    \<and> Some (wb_new_values req) = p_new_values payload
                    \<and> wb_status req = ''pending''
                    \<and> wb_rejection_reason req = []
                    \<and> wb_approved_by req = None
                    \<and> wb_approved_at req = None
                    \<and> wb_operation req \<in> set [''insert'', ''update'', ''delete'']
                    \<and> is_identifier (wb_table_name req)"
    by (rule exI [of _ req]) (use ok in \<open>simp add: run fields p\<close>)
next
  assume n: "\<not> creation_allowed db user payload"
  have "http_status (fst (create_write_back_request db user (Some payload)))
            \<in> set [400, 403, 404]
          \<and> is_failure (body (fst (create_write_back_request db user (Some payload))))
          \<and> snd (create_write_back_request db user (Some payload)) = db"
    using n
    by (auto simp add: creation_allowed_def create_write_back_request_def missing_fields_def
        opt_or_def Let_def is_failure_def split: option.splits)
  then show "http_status (fst (create_write_back_request db user (Some payload)))
            \<in> set [400, 403, 404]"
    and "is_failure (body (fst (create_write_back_request db user (Some payload))))"
    and "snd (create_write_back_request db user (Some payload)) = db"
    by blast+
next
  show "create_write_back_request db user None =
        (\<lparr>http_status = 400, body = Failure ''Invalid JSON''\<rparr>, db)"
    by (simp add: create_write_back_request_def)
qed

theorem C8_witness:
  "http_status (fst (create_write_back_request sample_db writer (Some insert_payload))) = 201
   \<and> map wb_operation
         (requests (snd (create_write_back_request sample_db writer (Some insert_payload)))) =
       [''update'', ''insert'']
   \<and> map wb_table_name
         (requests (snd (create_write_back_request sample_db writer (Some insert_payload)))) =
       [''samples'', ''samples'']
   \<and> snd (create_write_back_request sample_db writer
             (Some (insert_payload\<lparr>p_table_name := Some ''1st; drop''\<rparr>))) = sample_db"
proof -
  have 1: "creation_allowed sample_db writer insert_payload"
    by (simp add: creation_allowed_def insert_payload_def sample_db_def writer_def
        has_grant_def is_identifier_def str_eval)
  have 2: "\<not> creation_allowed sample_db writer
               (insert_payload\<lparr>p_table_name := Some ''1st; drop''\<rparr>)"
    by (simp add: creation_allowed_def insert_payload_def sample_db_def writer_def
        has_grant_def is_identifier_def str_eval)
  have norm: "map_option (\<lambda>operation. lower (strip operation)) (p_operation insert_payload) =
                Some ''insert''"
    "map_option strip (p_table_name insert_payload) = Some ''samples''"
    by (simp_all add: insert_payload_def str_eval)
  from C8_create_write_back [of sample_db writer insert_payload] 1 obtain req where
    created: "http_status (fst (create_write_back_request sample_db writer
                                  (Some insert_payload))) = 201"
      "snd (create_write_back_request sample_db writer (Some insert_payload)) =
         sample_db\<lparr>requests := requests sample_db @ [req],
                    next_request_id := Suc (next_request_id sample_db)\<rparr>"
      "Some (wb_operation req) =
         map_option (\<lambda>operation. lower (strip operation)) (p_operation insert_payload)"
      "Some (wb_table_name req) = map_option strip (p_table_name insert_payload)"
    by blast
  have stored: "wb_operation req = ''insert''" "wb_table_name req = ''samples''"
    using created(3,4) by (simp_all add: norm)
  have refused: "snd (create_write_back_request sample_db writer
             (Some (insert_payload\<lparr>p_table_name := Some ''1st; drop''\<rparr>))) = sample_db"
    using C8_create_write_back [of sample_db writer
        "insert_payload\<lparr>p_table_name := Some ''1st; drop''\<rparr>"] 2
    by blast
  show ?thesis
    by (simp add: created(1,2) stored refused)
       (simp add: sample_db_def pending_request_def)
qed

text \<open>
  C8 as stated fails on the raw fields: the operation \<open>INSERT\<close> is not one of insert,
  update, delete and the table name with blanks around it does not match the identifier
  pattern, yet the request is created in status \<open>pending\<close>.
\<close>

theorem C8_counterexample:
  "p_operation insert_payload = Some ''INSERT''
   \<and> p_table_name insert_payload = Some '' samples ''
   \<and> is_identifier '' samples '' = False
   \<and> http_status (fst (create_write_back_request sample_db writer (Some insert_payload))) = 201
   \<and> map wb_status (requests (snd (create_write_back_request sample_db writer
                                      (Some insert_payload)))) = [''pending'', ''pending'']"
  by (simp add: create_write_back_request_def missing_fields_def opt_or_def Let_def
      insert_payload_def sample_db_def writer_def has_grant_def is_identifier_def
      pending_request_def str_eval)

section \<open>C9: listing data sources\<close>

text \<open>A source is settled in a registry when ensuring its adapter changes nothing.\<close>

lemma ensure_settled_iff:
  "ensure_adapter_for_source s reg = reg \<longleftrightarrow>
     source_key s = [] \<or> adapters reg (source_key s) \<noteq> None
     \<or> adapter_classes_get reg
          (let t = str_or (src_type s) (str_or (src_source_type s) [])
           in if t = ''fuseki'' then ''oxigraph'' else t) = None"
proof -
  have neq: "reg\<lparr>adapters := (adapters reg)(k \<mapsto> a)\<rparr> \<noteq> reg" if "adapters reg k = None" for k a
  proof
    assume "reg\<lparr>adapters := (adapters reg)(k \<mapsto> a)\<rparr> = reg"
    then have "adapters (reg\<lparr>adapters := (adapters reg)(k \<mapsto> a)\<rparr>) k = adapters reg k"
      by simp
    with that show False by simp
  qed
  show ?thesis
    by (auto simp add: ensure_adapter_for_source_def Let_def neq split: option.splits)
qed

lemma adapter_classes_get_ensure:
  "adapter_classes_get (ensure_adapter_for_source t reg) ty = adapter_classes_get reg ty"
  by (simp add: ensure_adapter_for_source_def adapter_classes_get_def Let_def
      split: option.splits)

lemma adapters_ensure_mono:
  "adapters reg k \<noteq> None \<Longrightarrow> adapters (ensure_adapter_for_source t reg) k \<noteq> None"
  by (auto simp add: ensure_adapter_for_source_def Let_def split: option.splits)

lemma ensure_settled_step:
  assumes "ensure_adapter_for_source s reg = reg"
  shows "ensure_adapter_for_source s (ensure_adapter_for_source t reg) =
         ensure_adapter_for_source t reg"
proof -
  let ?ty = "let t = str_or (src_type s) (str_or (src_source_type s) [])
             in if t = ''fuseki'' then ''oxigraph'' else t"
  from assms have "source_key s = [] \<or> adapters reg (source_key s) \<noteq> None
     \<or> adapter_classes_get reg ?ty = None"
    by (simp only: ensure_settled_iff)
  then have "source_key s = []
     \<or> adapters (ensure_adapter_for_source t reg) (source_key s) \<noteq> None
     \<or> adapter_classes_get (ensure_adapter_for_source t reg) ?ty = None"
    using adapters_ensure_mono [of reg "source_key s" t]
    by (auto simp add: adapter_classes_get_ensure)
  then show ?thesis
    by (simp only: ensure_settled_iff)
qed

lemma ensure_idem:
  "ensure_adapter_for_source s (ensure_adapter_for_source s reg) =
     ensure_adapter_for_source s reg"
  unfolding ensure_settled_iff adapter_classes_get_ensure
  by (auto simp add: ensure_adapter_for_source_def Let_def split: option.splits)

lemma ensure_settled_fold:
  "ensure_adapter_for_source s reg = reg
   \<Longrightarrow> ensure_adapter_for_source s (fold ensure_adapter_for_source srcs reg) =
         fold ensure_adapter_for_source srcs reg"
  by (induction srcs arbitrary: reg) (simp_all add: ensure_settled_step)

lemma ensure_after_fold:
  "s \<in> set srcs
   \<Longrightarrow> ensure_adapter_for_source s (fold ensure_adapter_for_source srcs reg) =
         fold ensure_adapter_for_source srcs reg"
proof (induction srcs arbitrary: reg)
  case Nil
  then show ?case by simp
next
  case (Cons a srcs)
  show ?case
  proof (cases "s = a")
    case True
    then show ?thesis
      using ensure_settled_fold [OF ensure_idem] by simp
  next
    case False
    then show ?thesis using Cons by simp
  qed
qed

lemma fold_settled:
  "(\<And>s. s \<in> set srcs \<Longrightarrow> ensure_adapter_for_source s reg = reg)
   \<Longrightarrow> fold ensure_adapter_for_source srcs reg = reg"
  by (induction srcs) simp_all

lemma fold_ensure_idem:
  "fold ensure_adapter_for_source srcs (fold ensure_adapter_for_source srcs reg) =
     fold ensure_adapter_for_source srcs reg"
  by (rule fold_settled) (rule ensure_after_fold)

lemma summaries_names:
  "map sp_name (summaries reg recs) = sorted_set (map fst recs)"
proof -
  have step: "set names \<subseteq> fst ` set recs \<Longrightarrow>
     map sp_name (concat (map (\<lambda>source_name.
                    (case map_of recs source_name of
                       None \<Rightarrow> []
                     | Some source_record \<Rightarrow> [source_summary reg source_name source_record]))
               names)) = names" for names
  proof (induction names)
    case Nil
    then show ?case by simp
  next
    case (Cons a names)
    then obtain r where "map_of recs a = Some r"
      by (cases "map_of recs a") (auto simp add: map_of_eq_None_iff)
    then show ?case using Cons
      by (simp add: source_summary_def Let_def split_beta)
  qed
  show ?thesis
    by (simp add: summaries_def sorted_set_def step)
qed

text \<open>
  C9. A second call of the listing, made in the registry the first call left behind and
  against the same record store, returns what the first call returned and leaves the
  registry as it is; a returned list is in strictly ascending order of the normalised
  source names it carries.
\<close>

theorem C9_listing_idempotent:
  "fst (get_data_sources be (snd (get_data_sources be reg authorization)) authorization) =
     fst (get_data_sources be reg authorization)
   \<and> snd (get_data_sources be (snd (get_data_sources be reg authorization)) authorization) =
     snd (get_data_sources be reg authorization)
   \<and> (fst (get_data_sources be reg authorization) = Inr listing
        \<longrightarrow> sorted (map sp_name listing) \<and> distinct (map sp_name listing))"
proof -
  have ordered: "sorted (map sp_name (summaries r recs))
                 \<and> distinct (map sp_name (summaries r recs))" for r recs
    by (simp add: summaries_names sorted_set_def)
  show ?thesis
  proof (cases "resolve_request_user be authorization")
    case (Inl e)
    then show ?thesis by (simp add: get_data_sources_def)
  next
    case (Inr caller)
    show ?thesis
    proof (cases caller)
      case None
      then show ?thesis
        using Inr ordered
        by (cases "fetch_accessible_sources_for_user be None")
           (auto simp add: get_data_sources_def Let_def fold_ensure_idem)
    next
      case (Some u)
      then show ?thesis
        using Inr ordered
        by (cases "fetch_accessible_sources_for_user be (user_id u)")
           (auto simp add: get_data_sources_def Let_def fold_ensure_idem)
    qed
  qed
qed

lemma public_pair_first_call:
  "fst (get_data_sources (store_of public_pair) empty_registry None) = Inr public_pair_listing"
  by (simp add: get_data_sources_def user_eval public_pair_def public_pair_listing_def
      empty_registry_def offline_adapter_def ensure_adapter_for_source_def
      adapter_classes_get_def summaries_def records_by_key_def source_summary_def
      sorted_set_def opt_or_def source_eval str_eval)

theorem C9_witness:
  "fst (get_data_sources (store_of public_pair)
          (snd (get_data_sources (store_of public_pair) empty_registry None)) None) =
     Inr public_pair_listing
   \<and> sorted (map sp_name public_pair_listing)
   \<and> distinct (map sp_name public_pair_listing)"
  using C9_listing_idempotent [of "store_of public_pair" empty_registry None public_pair_listing]
    public_pair_first_call
  by simp

section \<open>C10: map nodes with no source\<close>



end
